theory Spec2Isabelle
  imports Complex_Main
begin

section \<open>The data-visualisation dashboard script (app.py)\<close>

text \<open>
  The program is one Streamlit script.  Streamlit runs it from top to bottom on every
  interaction: the uploaded file is parsed again, the widgets return their current
  values, and only \<^verbatim>\<open>st.session_state\<close> survives from one run to the next.
  The model follows that: one function for one run of the script, taking the session
  state and the widget values and returning the new session state together with what
  the run put on the page.

  The plotting and slide libraries are outside the repository.  Their calls are
  parameters of the model (record \<open>env\<close> below), each returning either an exception
  or a value.  A float64 is a real or NaN; the script does no arithmetic on floats, and
  the one place where a value is rounded, the conversion of an int64 to float64 in the
  comparison of line 60, is modelled (\<open>f64_of_int\<close>).
\<close>

subsection \<open>Exceptions\<close>

datatype exn =
    KeyError string
  | TypeError string
  | FileNotFoundError string
  | LibraryError string

text \<open>\<^verbatim>\<open>f"{e}"\<close>: the text of an exception, used in the message of line 94.\<close>

fun exn_str :: "exn \<Rightarrow> string" where
  "exn_str (KeyError k) = [CHR 0x27] @ k @ [CHR 0x27]"
| "exn_str (TypeError m) = m"
| "exn_str (FileNotFoundError m) = m"
| "exn_str (LibraryError m) = m"

subsection \<open>Tables (pandas DataFrame)\<close>

text \<open>
  A column is a homogeneous sequence with a dtype.  \<^verbatim>\<open>pd.read_csv\<close> infers int64,
  float64, bool or object; a missing value is NaN (\<open>None\<close>) and only float64 and
  object columns can hold one.  The rare other dtypes (uint64 for values beyond int64)
  are left out; the check of line 53 treats them as it treats bool and object.
\<close>

datatype column =
    Int64 "int list"
  | Float64 "real option list"
  | Bool "bool list"
  | Object "string option list"

datatype cell =
    CInt int
  | CFloat "real option"
  | CBool bool
  | CObj "string option"

record table =
  index :: "nat list"
  columns :: "(string \<times> column) list"

fun cells :: "column \<Rightarrow> cell list" where
  "cells (Int64 vs) = map CInt vs"
| "cells (Float64 vs) = map CFloat vs"
| "cells (Bool vs) = map CBool vs"
| "cells (Object vs) = map CObj vs"



text \<open>\<^verbatim>\<open>df[x_axis]\<close>: the column of that name, or KeyError.\<close>

definition getcol :: "table \<Rightarrow> string \<Rightarrow> exn + column" where
  "getcol t x = (case map_of (columns t) x of
                   None \<Rightarrow> Inl (KeyError x)
                 | Some c \<Rightarrow> Inr c)"

text \<open>The rows of a table, each a list of (column name, value) in column order.\<close>

definition row_at :: "table \<Rightarrow> nat \<Rightarrow> (string \<times> cell) list" where
  "row_at t i = map (\<lambda>nc. (fst nc, cells (snd nc) ! i)) (columns t)"

definition rows :: "table \<Rightarrow> (string \<times> cell) list list" where
  "rows t = map (row_at t) [0..<length (index t)]"

subsection \<open>The range filter (lines 53 to 60)\<close>

text \<open>
  \<^verbatim>\<open>df[x_axis].dtype in [int, float]\<close>: the dtype is int64 or float64 (where Python's
  \<^verbatim>\<open>int\<close> stands for the 64-bit integer dtype, as on Linux).
\<close>

fun dtype_in_int_float :: "column \<Rightarrow> bool" where
  "dtype_in_int_float (Int64 _) = True"
| "dtype_in_int_float (Float64 _) = True"
| "dtype_in_int_float (Bool _) = False"
| "dtype_in_int_float (Object _) = False"

text \<open>
  The float64 nearest to an integer, as NumPy's cast of an int64 column gives it: 53
  significant bits, ties to the even mantissa.  \<open>f64_exp n\<close> is the number of low bits
  that do not fit.  Every float64 of that size is itself an integer.
\<close>

fun f64_exp :: "nat \<Rightarrow> nat" where
  "f64_exp n = (if n < 9007199254740992 then 0 else Suc (f64_exp (n div 2)))"

declare f64_exp.simps [simp del]

definition f64_of_nat :: "nat \<Rightarrow> nat" where
  "f64_of_nat n =
     (let e = f64_exp n; q = n div 2 ^ e; r = n mod 2 ^ e
      in if 2 ^ e < 2 * r \<or> (2 * r = 2 ^ e \<and> odd q) then (q + 1) * 2 ^ e else q * 2 ^ e)"

definition f64_of_int :: "int \<Rightarrow> int" where
  "f64_of_int v = (if v < 0 then - int (f64_of_nat (nat (- v))) else int (f64_of_nat (nat v)))"

text \<open>
  \<^verbatim>\<open>df[x_axis] >= min_val\<close> and \<^verbatim>\<open>df[x_axis] <= max_val\<close>: elementwise comparison
  with a float, giving a boolean mask.  An int64 column is converted to float64 first.
  A comparison with NaN is False.  A bool compares as 0 or 1; a string does not compare
  with a float.
\<close>

fun float_ge :: "real option \<Rightarrow> real \<Rightarrow> bool" where
  "float_ge None b = False"
| "float_ge (Some v) b = (v \<ge> b)"

fun float_le :: "real option \<Rightarrow> real \<Rightarrow> bool" where
  "float_le None b = False"
| "float_le (Some v) b = (v \<le> b)"

fun series_ge :: "column \<Rightarrow> real \<Rightarrow> exn + bool list" where
  "series_ge (Int64 vs) b = Inr (map (\<lambda>v. real_of_int (f64_of_int v) \<ge> b) vs)"
| "series_ge (Float64 vs) b = Inr (map (\<lambda>v. float_ge v b) vs)"
| "series_ge (Bool vs) b = Inr (map (\<lambda>v. (if v then 1 else 0) \<ge> b) vs)"
| "series_ge (Object vs) b =
     (if vs = [] then Inr [] else Inl (TypeError ''>= not supported''))"

fun series_le :: "column \<Rightarrow> real \<Rightarrow> exn + bool list" where
  "series_le (Int64 vs) b = Inr (map (\<lambda>v. real_of_int (f64_of_int v) \<le> b) vs)"
| "series_le (Float64 vs) b = Inr (map (\<lambda>v. float_le v b) vs)"
| "series_le (Bool vs) b = Inr (map (\<lambda>v. (if v then 1 else 0) \<le> b) vs)"
| "series_le (Object vs) b =
     (if vs = [] then Inr [] else Inl (TypeError ''<= not supported''))"

text \<open>\<^verbatim>\<open>a & b\<close> on two masks.\<close>

definition mask_and :: "bool list \<Rightarrow> bool list \<Rightarrow> bool list" where
  "mask_and a b = map (\<lambda>p. fst p \<and> snd p) (zip a b)"

text \<open>\<^verbatim>\<open>df[mask]\<close>: the rows whose mask entry is True, in order, with their index labels.\<close>

definition pick :: "bool list \<Rightarrow> 'a list \<Rightarrow> 'a list" where
  "pick m xs = map fst (filter snd (zip xs m))"

fun take_rows :: "bool list \<Rightarrow> column \<Rightarrow> column" where
  "take_rows m (Int64 vs) = Int64 (pick m vs)"
| "take_rows m (Float64 vs) = Float64 (pick m vs)"
| "take_rows m (Bool vs) = Bool (pick m vs)"
| "take_rows m (Object vs) = Object (pick m vs)"

definition select_rows :: "table \<Rightarrow> bool list \<Rightarrow> table" where
  "select_rows t m =
     \<lparr> index = pick m (index t),
       columns = map (\<lambda>nc. (fst nc, take_rows m (snd nc))) (columns t) \<rparr>"

text \<open>Line 60: \<^verbatim>\<open>df[(df[x_axis] >= min_val) & (df[x_axis] <= max_val)]\<close>.\<close>

definition range_filter :: "table \<Rightarrow> string \<Rightarrow> real \<Rightarrow> real \<Rightarrow> exn + table" where
  "range_filter t x min_val max_val =
     (case getcol t x of Inl e \<Rightarrow> Inl e
      | Inr c \<Rightarrow>
     (case series_ge c min_val of Inl e \<Rightarrow> Inl e
      | Inr ge \<Rightarrow>
     (case getcol t x of Inl e \<Rightarrow> Inl e
      | Inr c' \<Rightarrow>
     (case series_le c' max_val of Inl e \<Rightarrow> Inl e
      | Inr le \<Rightarrow> Inr (select_rows t (mask_and ge le))))))"

text \<open>
  Lines 53 to 60.  The slider of lines 54 to 59 is a widget: it returns the range the
  user has chosen, here the arguments \<open>min_val\<close> and \<open>max_val\<close>.
\<close>

definition filter_step :: "table \<Rightarrow> string \<Rightarrow> real \<Rightarrow> real \<Rightarrow> exn + table" where
  "filter_step t x min_val max_val =
     (case getcol t x of Inl e \<Rightarrow> Inl e
      | Inr c \<Rightarrow>
          if dtype_in_int_float c then range_filter t x min_val max_val
          else Inr t)"






subsection \<open>The chart ledger (session state)\<close>

datatype kind = Bar_Chart | Line_Chart | Scatter_Plot | Histogram | Box_Plot | Pie_Chart

text \<open>The six strings of the select box of lines 35 to 38.\<close>

fun kind_name :: "kind \<Rightarrow> string" where
  "kind_name Bar_Chart = ''Bar Chart''"
| "kind_name Line_Chart = ''Line Chart''"
| "kind_name Scatter_Plot = ''Scatter Plot''"
| "kind_name Histogram = ''Histogram''"
| "kind_name Box_Plot = ''Box Plot''"
| "kind_name Pie_Chart = ''Pie Chart''"

text \<open>The tuple of line 91: \<^verbatim>\<open>(chart_type, x_axis, y_axis, color)\<close>.\<close>

type_synonym chart = "kind \<times> string \<times> string \<times> string"

type_synonym bytes = string

text \<open>
  What survives between runs: \<^verbatim>\<open>st.session_state\<close>, where the key \<^verbatim>\<open>charts\<close> is
  absent (\<open>None\<close>) in a new session, and the chart images the script has written to
  its working directory.
\<close>

record session =
  charts :: "chart list option"
  files :: "string \<rightharpoonup> bytes"

text \<open>Lines 19 and 20: a missing key becomes the empty list.\<close>

definition init_charts :: "session \<Rightarrow> chart list" where
  "init_charts s = (case charts s of None \<Rightarrow> [] | Some cs \<Rightarrow> cs)"

text \<open>Line 91: \<^verbatim>\<open>st.session_state.charts.append(...)\<close>.\<close>

definition append_chart :: "chart list \<Rightarrow> chart \<Rightarrow> chart list" where
  "append_chart cs c = cs @ [c]"

subsection \<open>The libraries the script calls\<close>

text \<open>
  A figure is opaque: the model only passes it on.  Each field stands for the library
  calls named beside it and returns the exception they raise, or their value.  Creating
  an empty figure (\<^verbatim>\<open>plt.subplots\<close>) and showing a figure on the page (\<^verbatim>\<open>st.pyplot\<close>,
  \<^verbatim>\<open>st.plotly_chart\<close>) are taken to succeed.
\<close>

type_synonym figure = bytes

record env =
  sns_figure :: "kind \<Rightarrow> table \<Rightarrow> string \<Rightarrow> string option \<Rightarrow> string \<Rightarrow> exn + figure"
    \<comment> \<open>\<^verbatim>\<open>sns.barplot\<close>, \<^verbatim>\<open>lineplot\<close>, \<^verbatim>\<open>scatterplot\<close>, \<^verbatim>\<open>histplot\<close> (no y) or
        \<^verbatim>\<open>boxplot\<close> on \<^verbatim>\<open>(data=df, x, y, color)\<close>, drawn on the axes of a new figure\<close>
  px_figure :: "kind \<Rightarrow> table \<Rightarrow> string \<Rightarrow> string \<Rightarrow> string \<Rightarrow> exn + figure"
    \<comment> \<open>\<^verbatim>\<open>px.line\<close>, \<^verbatim>\<open>px.scatter\<close> or \<^verbatim>\<open>px.pie\<close> on \<^verbatim>\<open>(df, x, y, color)\<close>\<close>
  add_scatter :: "figure \<Rightarrow> column \<Rightarrow> column \<Rightarrow> string \<Rightarrow> exn + figure"
    \<comment> \<open>\<^verbatim>\<open>fig.add_scatter(x=..., y=..., mode='markers', ...)\<close>, line 76\<close>
  savefig :: "figure \<Rightarrow> exn + bytes"
    \<comment> \<open>\<^verbatim>\<open>plt.savefig\<close> then \<^verbatim>\<open>plt.close\<close> of the Matplotlib figure, lines 145 and 146\<close>
  write_image :: "figure \<Rightarrow> exn + bytes"
    \<comment> \<open>\<^verbatim>\<open>pio.write_image\<close>, line 140\<close>
  close_plotly :: "figure \<Rightarrow> exn option"
    \<comment> \<open>\<^verbatim>\<open>plt.close\<close> given the Plotly figure, line 141\<close>
  float_repr :: "real \<Rightarrow> string"
    \<comment> \<open>the text pandas writes for a float64\<close>

subsection \<open>What a run puts on the page\<close>

record picture =
  image :: bytes
  left :: int
  top :: int
  width :: int
  height :: int

record slide =
  title :: string
  pictures :: "picture list"

datatype ui =
    Title string
  | Success string
  | Info string
  | Error string
  | Subheader string
  | Write_table table
  | Write_text string
  | Pyplot figure
  | Plotly_chart figure
  | Sidebar_header string
  | Sidebar_subheader string
  | Download_csv string bytes string string
  | Download_ppt string "slide list" string string

subsection \<open>Generate Chart (lines 63 to 94)\<close>

text \<open>The body of the \<^verbatim>\<open>try\<close> up to the display of the figure, lines 66 to 88.\<close>

fun generate_chart ::
  "env \<Rightarrow> table \<Rightarrow> kind \<Rightarrow> string \<Rightarrow> string \<Rightarrow> string \<Rightarrow> bool \<Rightarrow> exn + ui list" where
  "generate_chart E df Bar_Chart x y col sdp =
     (case sns_figure E Bar_Chart df x (Some y) col of
        Inl e \<Rightarrow> Inl e | Inr fig \<Rightarrow> Inr [Pyplot fig])"
| "generate_chart E df Line_Chart x y col sdp =
     (case px_figure E Line_Chart df x y col of
        Inl e \<Rightarrow> Inl e | Inr fig \<Rightarrow> Inr [Plotly_chart fig])"
| "generate_chart E df Scatter_Plot x y col sdp =
     (case px_figure E Scatter_Plot df x y col of
        Inl e \<Rightarrow> Inl e
      | Inr fig \<Rightarrow>
          if sdp then
            (case getcol df x of Inl e \<Rightarrow> Inl e | Inr cx \<Rightarrow>
             (case getcol df y of Inl e \<Rightarrow> Inl e | Inr cy \<Rightarrow>
              (case add_scatter E fig cx cy col of
                 Inl e \<Rightarrow> Inl e | Inr fig' \<Rightarrow> Inr [Plotly_chart fig'])))
          else Inr [Plotly_chart fig])"
| "generate_chart E df Histogram x y col sdp =
     (case sns_figure E Histogram df x None col of
        Inl e \<Rightarrow> Inl e | Inr fig \<Rightarrow> Inr [Pyplot fig])"
| "generate_chart E df Box_Plot x y col sdp =
     (case sns_figure E Box_Plot df x (Some y) col of
        Inl e \<Rightarrow> Inl e | Inr fig \<Rightarrow> Inr [Pyplot fig])"
| "generate_chart E df Pie_Chart x y col sdp =
     (case px_figure E Pie_Chart df x y col of
        Inl e \<Rightarrow> Inl e | Inr fig \<Rightarrow> Inr [Plotly_chart fig])"

text \<open>
  The handler: the chart is appended and the success message shown only when the
  \<^verbatim>\<open>try\<close> body got that far; any exception lands in the \<^verbatim>\<open>except\<close> of line 93.
\<close>

definition generate_handler ::
  "env \<Rightarrow> table \<Rightarrow> kind \<Rightarrow> string \<Rightarrow> string \<Rightarrow> string \<Rightarrow> bool \<Rightarrow> chart list
     \<Rightarrow> chart list \<times> ui list" where
  "generate_handler E df ct x y col sdp cs =
     (case generate_chart E df ct x y col sdp of
        Inr shown \<Rightarrow>
          (append_chart cs (ct, x, y, col),
           [Subheader (kind_name ct @ '' Visualization'')] @ shown @
           [Success (kind_name ct @ '' added to the dashboard!'')])
      | Inl e \<Rightarrow>
          (cs,
           [Subheader (kind_name ct @ '' Visualization''),
            Error (''Error generating visualization: '' @ exn_str e)]))"

subsection \<open>The list of generated charts (lines 97 to 101)\<close>

fun chart_line :: "chart \<Rightarrow> string" where
  "chart_line (ct, x, y, col) =
     kind_name ct @ '' - X: '' @ x @ '', Y: '' @ y @ '', Color: '' @ col"

definition list_charts :: "chart list \<Rightarrow> ui list" where
  "list_charts cs =
     (if cs \<noteq> [] then Subheader ''Generated Charts'' # map (\<lambda>c. Write_text (chart_line c)) cs
      else [])"

subsection \<open>Download CSV (lines 104 to 111)\<close>

text \<open>Decimal text of an integer, as \<^verbatim>\<open>str\<close> gives it.\<close>

fun str_nat :: "nat \<Rightarrow> string" where
  "str_nat n =
     (if n < 10 then [''0123456789'' ! n]
      else str_nat (n div 10) @ [''0123456789'' ! (n mod 10)])"

declare str_nat.simps [simp del]

definition str_int :: "int \<Rightarrow> string" where
  "str_int v = (if v < 0 then CHR ''-'' # str_nat (nat (- v)) else str_nat (nat v))"

text \<open>The text of one value; NaN is written as the empty string.\<close>

fun cell_text :: "(real \<Rightarrow> string) \<Rightarrow> cell \<Rightarrow> string" where
  "cell_text fr (CInt v) = str_int v"
| "cell_text fr (CFloat None) = []"
| "cell_text fr (CFloat (Some r)) = fr r"
| "cell_text fr (CBool b) = (if b then ''True'' else ''False'')"
| "cell_text fr (CObj None) = []"
| "cell_text fr (CObj (Some s)) = s"

text \<open>
  The writer behind \<^verbatim>\<open>to_csv\<close> with its defaults: comma separator, newline after
  every record, minimal quoting: a field holding the separator, a double quote or a
  line break is put in double quotes, with each double quote inside doubled.  A record
  that is one empty field is written quoted.
\<close>

definition needs_quote :: "string \<Rightarrow> bool" where
  "needs_quote f \<longleftrightarrow>
     list_ex (\<lambda>c. c = CHR '','' \<or> c = CHR 0x22 \<or> c = CHR 0x0A \<or> c = CHR 0x0D) f"

definition csv_field :: "string \<Rightarrow> string" where
  "csv_field f =
     (if needs_quote f
      then [CHR 0x22] @ concat (map (\<lambda>c. if c = CHR 0x22 then [c, c] else [c]) f) @ [CHR 0x22]
      else f)"

fun join_comma :: "string list \<Rightarrow> string" where
  "join_comma [] = []"
| "join_comma [f] = f"
| "join_comma (f # g # fs) = f @ '','' @ join_comma (g # fs)"

definition csv_row :: "string list \<Rightarrow> string" where
  "csv_row fs =
     (if fs = [[]] then [CHR 0x22, CHR 0x22] else join_comma (map csv_field fs)) @ [CHR 0x0A]"

text \<open>
  \<^verbatim>\<open>df.to_csv(index=False)\<close>: the header, then for each row position the values of
  the columns at that position.  The index labels are not written.
\<close>

definition csv_records :: "(real \<Rightarrow> string) \<Rightarrow> table \<Rightarrow> string list list" where
  "csv_records fr t =
     map fst (columns t) #
     map (\<lambda>i. map (\<lambda>nc. cell_text fr (cells (snd nc) ! i)) (columns t))
       [0..<length (index t)]"

definition export_table :: "(real \<Rightarrow> string) \<Rightarrow> table \<Rightarrow> bytes" where
  "export_table fr t = concat (map csv_row (csv_records fr t))"




definition download_csv :: "env \<Rightarrow> table \<Rightarrow> ui list" where
  "download_csv E df =
     [Sidebar_subheader ''Download Filtered Dataset'',
      Download_csv ''Download CSV'' (export_table (float_repr E) df)
        ''filtered_dataset.csv'' ''text/csv'']"

subsection \<open>Download Dashboard as PPT (lines 114 to 163)\<close>

definition Inches :: "int \<Rightarrow> int" where
  "Inches n = n * 914400"

definition chart_file :: "nat \<Rightarrow> string" where
  "chart_file idx = ''chart_'' @ str_nat idx @ ''.png''"

text \<open>Line 124: the title of the slide of one entry.\<close>

fun slide_title :: "chart \<Rightarrow> string" where
  "slide_title (ct, x, y, col) = kind_name ct @ '' - X: '' @ x @ '', Y: '' @ y"

text \<open>
  Lines 127 to 146: the image of one entry, drawn from the table \<open>df\<close>.  For a pie
  chart it is the Plotly figure written by \<^verbatim>\<open>pio.write_image\<close>; for the other kinds it
  is the seaborn drawing saved by \<^verbatim>\<open>plt.savefig\<close>.
\<close>

fun chart_png :: "env \<Rightarrow> table \<Rightarrow> chart \<Rightarrow> exn + figure \<times> bytes" where
  "chart_png E df (ct, x, y, col) =
     (if ct = Pie_Chart then
        (case px_figure E Pie_Chart df x y col of
           Inl e \<Rightarrow> Inl e
         | Inr fig \<Rightarrow>
             (case write_image E fig of Inl e \<Rightarrow> Inl e | Inr png \<Rightarrow> Inr (fig, png)))
      else
        (case sns_figure E ct df x (if ct = Histogram then None else Some y) col of
           Inl e \<Rightarrow> Inl e
         | Inr fig \<Rightarrow>
             (case savefig E fig of Inl e \<Rightarrow> Inl e | Inr png \<Rightarrow> Inr (fig, png))))"

text \<open>Line 150: \<^verbatim>\<open>add_picture\<close> reads the file and places it.\<close>

definition add_picture :: "(string \<rightharpoonup> bytes) \<Rightarrow> string \<Rightarrow> slide \<Rightarrow> exn + slide" where
  "add_picture fs name s =
     (case fs name of
        None \<Rightarrow> Inl (FileNotFoundError name)
      | Some img \<Rightarrow>
          Inr (s\<lparr>pictures := pictures s @
                 [\<lparr>image = img, left = Inches 1, top = Inches 1,
                   width = Inches 6, height = Inches 4\<rparr>]\<rparr>))"

text \<open>
  One iteration of the loop of line 118.  The slide is added and titled first.  In the
  pie branch the image file is written, the figure closed, and \<^verbatim>\<open>continue\<close> goes to
  the next entry: line 150 is not reached.
\<close>

definition export_entry ::
  "env \<Rightarrow> table \<Rightarrow> (string \<rightharpoonup> bytes) \<Rightarrow> nat \<Rightarrow> chart \<Rightarrow> (string \<rightharpoonup> bytes) \<times> (exn + slide)" where
  "export_entry E df fs idx c =
     (let s0 = \<lparr>title = slide_title c, pictures = []\<rparr> in
      case chart_png E df c of
        Inl e \<Rightarrow> (fs, Inl e)
      | Inr (fig, png) \<Rightarrow>
          let fs' = fs(chart_file idx \<mapsto> png) in
          if fst c = Pie_Chart then
            (case close_plotly E fig of
               Some e \<Rightarrow> (fs', Inl e)
             | None \<Rightarrow> (fs', Inr s0))
          else (fs', add_picture fs' (chart_file idx) s0))"

fun export_loop ::
  "env \<Rightarrow> table \<Rightarrow> nat \<Rightarrow> chart list \<Rightarrow> (string \<rightharpoonup> bytes) \<Rightarrow> slide list
     \<Rightarrow> (string \<rightharpoonup> bytes) \<times> (exn + slide list)" where
  "export_loop E df idx [] fs prs = (fs, Inr prs)"
| "export_loop E df idx (c # cs) fs prs =
     (case export_entry E df fs idx c of
        (fs', Inl e) \<Rightarrow> (fs', Inl e)
      | (fs', Inr s) \<Rightarrow> export_loop E df (Suc idx) cs fs' (prs @ [s]))"

text \<open>
  The whole export: a new presentation, one pass over the ledger.  Saving the
  presentation and reading it back for the download button are taken to succeed; the
  saved file is what the download button offers and is not kept in \<open>files\<close>.
\<close>

definition export_slides ::
  "env \<Rightarrow> chart list \<Rightarrow> table \<Rightarrow> (string \<rightharpoonup> bytes) \<Rightarrow> (string \<rightharpoonup> bytes) \<times> (exn + slide list)" where
  "export_slides E cs df fs = export_loop E df 0 cs fs []"

subsection \<open>One run of the script\<close>

record inputs =
  uploaded_file :: "table option"
  chart_type :: kind
  x_axis :: string
  y_axis :: string
  color :: string
  show_data_points :: bool
  slider :: "real \<times> real"
  generate_button :: bool
  ppt_button :: bool

record outcome =
  session_after :: session
  page :: "ui list"
  uncaught :: "exn option"

text \<open>\<^verbatim>\<open>df.head()\<close>: the first five rows.\<close>

fun head_col :: "column \<Rightarrow> column" where
  "head_col (Int64 vs) = Int64 (take 5 vs)"
| "head_col (Float64 vs) = Float64 (take 5 vs)"
| "head_col (Bool vs) = Bool (take 5 vs)"
| "head_col (Object vs) = Object (take 5 vs)"

definition df_head :: "table \<Rightarrow> table" where
  "df_head t = \<lparr> index = take 5 (index t),
                 columns = map (\<lambda>nc. (fst nc, head_col (snd nc))) (columns t) \<rparr>"

text \<open>Lines 51 to 60: the table every later line of the run works on.\<close>

definition current_table :: "table \<Rightarrow> inputs \<Rightarrow> exn + table" where
  "current_table df0 inp =
     (if x_axis inp \<noteq> [] \<and> y_axis inp \<noteq> []
      then filter_step df0 (x_axis inp) (fst (slider inp)) (snd (slider inp))
      else Inr df0)"

definition app_title :: string where
  "app_title = [CHR 0xF0, CHR 0x9F, CHR 0x93, CHR 0x8A] @ '' Data Visualization Dashboard''"

definition pptx_mime :: string where
  "pptx_mime = ''application/vnd.openxmlformats-officedocument.presentationml.presentation''"

definition run :: "env \<Rightarrow> session \<Rightarrow> inputs \<Rightarrow> outcome" where
  "run E s inp =
     (let cs0 = init_charts s in
      case uploaded_file inp of
        None \<Rightarrow>
          \<lparr> session_after = s\<lparr>charts := Some cs0\<rparr>,
            page = [Title app_title, Info ''Please upload a CSV file to get started.''],
            uncaught = None \<rparr>
      | Some df0 \<Rightarrow>
          let p0 = [Title app_title, Success ''File uploaded successfully!'',
                    Subheader ''Preview of the Dataset'', Write_table (df_head df0),
                    Sidebar_header ''Visualization Settings'']
          in
          case current_table df0 inp of
            Inl e \<Rightarrow>
              \<lparr> session_after = s\<lparr>charts := Some cs0\<rparr>, page = p0, uncaught = Some e \<rparr>
          | Inr df \<Rightarrow>
              let (cs1, p1) =
                    (if x_axis inp \<noteq> [] \<and> y_axis inp \<noteq> [] \<and> generate_button inp
                     then generate_handler E df (chart_type inp) (x_axis inp) (y_axis inp)
                            (color inp) (show_data_points inp) cs0
                     else (cs0, []));
                  p = p0 @ p1 @ list_charts cs1 @ download_csv E df
              in
              if ppt_button inp then
                (case export_slides E cs1 df (files s) of
                   (fs', Inl e) \<Rightarrow>
                     \<lparr> session_after = \<lparr>charts = Some cs1, files = fs'\<rparr>,
                       page = p, uncaught = Some e \<rparr>
                 | (fs', Inr prs) \<Rightarrow>
                     \<lparr> session_after = \<lparr>charts = Some cs1, files = fs'\<rparr>,
                       page = p @ [Download_ppt ''Download PPT'' prs ''dashboard.pptx'' pptx_mime],
                       uncaught = None \<rparr>)
              else
                \<lparr> session_after = \<lparr>charts = Some cs1, files = files s\<rparr>,
                  page = p, uncaught = None \<rparr>)"

text \<open>A session: the runs of the script one after another, stopping at nothing.\<close>

fun runs :: "env \<Rightarrow> session \<Rightarrow> inputs list \<Rightarrow> session" where
  "runs E s [] = s"
| "runs E s (inp # inps) = runs E (session_after (run E s inp)) inps"

definition new_session :: session where
  "new_session = \<lparr> charts = None, files = Map.empty \<rparr>"

subsection \<open>Reading a run\<close>

text \<open>The ledger entry a run would record: the widget values of that run.\<close>

definition spec_of :: "inputs \<Rightarrow> chart" where
  "spec_of inp = (chart_type inp, x_axis inp, y_axis inp, color inp)"

text \<open>
  The run reaches line 91: a file is loaded, the filter step raised nothing, both axes
  are set, the button was pressed and the chart was drawn without an exception.
\<close>

definition generate_ok :: "env \<Rightarrow> inputs \<Rightarrow> bool" where
  "generate_ok E inp =
     (case uploaded_file inp of
        None \<Rightarrow> False
      | Some df0 \<Rightarrow>
          (case current_table df0 inp of
             Inl e \<Rightarrow> False
           | Inr df \<Rightarrow>
               x_axis inp \<noteq> [] \<and> y_axis inp \<noteq> [] \<and> generate_button inp \<and>
               (case generate_chart E df (chart_type inp) (x_axis inp) (y_axis inp)
                       (color inp) (show_data_points inp) of
                  Inl e \<Rightarrow> False
                | Inr shown \<Rightarrow> True)))"

text \<open>What the page offers for download, and the error messages it shows.\<close>

fun csv_data :: "ui \<Rightarrow> bytes option" where
  "csv_data (Download_csv label d name mime) = Some d"
| "csv_data _ = None"

definition csv_downloads :: "ui list \<Rightarrow> bytes list" where
  "csv_downloads p = List.map_filter csv_data p"

fun ppt_data :: "ui \<Rightarrow> slide list option" where
  "ppt_data (Download_ppt label prs name mime) = Some prs"
| "ppt_data _ = None"

definition ppt_downloads :: "ui list \<Rightarrow> slide list list" where
  "ppt_downloads p = List.map_filter ppt_data p"

fun error_text :: "ui \<Rightarrow> string option" where
  "error_text (Error m) = Some m"
| "error_text _ = None"

definition error_messages :: "ui list \<Rightarrow> string list" where
  "error_messages p = List.map_filter error_text p"

text \<open>The picture line 150 places on a slide.\<close>

definition placed :: "bytes \<Rightarrow> picture" where
  "placed img = \<lparr>image = img, left = 914400, top = 914400, width = 5486400, height = 3657600\<rparr>"

subsection \<open>Sample inputs\<close>

text \<open>A table of four rows with a text, an integer and a float column (one NaN).\<close>

definition demo_table :: table where
  "demo_table =
     \<lparr> index = [0, 1, 2, 3],
       columns =
         [(''date'', Object [Some ''mon'', Some ''tue'', Some ''wed'', Some ''thu'']),
          (''sales'', Int64 [50, 150, 250, 200]),
          (''rate'', Float64 [Some 1.5, None, Some 0.5, Some 2])] \<rparr>"

definition is_numeric_name :: "table \<Rightarrow> string \<Rightarrow> bool" where
  "is_numeric_name t x = (case getcol t x of Inl e \<Rightarrow> False | Inr c \<Rightarrow> dtype_in_int_float c)"

text \<open>
  Stand-ins for the libraries.  A figure records the call and the number of rows it
  drew.  As seaborn does, the bar and box plots refuse two non-numeric variables; the
  other calls succeed.
\<close>

definition demo_figure :: "string \<Rightarrow> kind \<Rightarrow> table \<Rightarrow> string \<Rightarrow> string \<Rightarrow> figure" where
  "demo_figure lib k t x y =
     lib @ '' '' @ kind_name k @ '' '' @ x @ '' '' @ y @ '' rows='' @ str_nat (length (index t))"

definition demo_sns :: "kind \<Rightarrow> table \<Rightarrow> string \<Rightarrow> string option \<Rightarrow> string \<Rightarrow> exn + figure" where
  "demo_sns k t x y col =
     (case y of
        None \<Rightarrow> Inr (demo_figure ''sns'' k t x [])
      | Some yn \<Rightarrow>
          if (k = Bar_Chart \<or> k = Box_Plot) \<and> \<not> is_numeric_name t x \<and> \<not> is_numeric_name t yn
          then Inl (TypeError ''Neither the x nor y variable appears to be numeric.'')
          else Inr (demo_figure ''sns'' k t x yn))"



text \<open>The text of the floats of the sample table.\<close>

definition demo_float :: "real \<Rightarrow> string" where
  "demo_float r =
     (if r = 2 then ''2.0'' else if r = 1.5 then ''1.5'' else if r = 0.5 then ''0.5'' else ''nan'')"

definition demo_env :: env where
  "demo_env =
     \<lparr> sns_figure = demo_sns,
       px_figure = (\<lambda>k t x y col. Inr (demo_figure ''px'' k t x y)),
       add_scatter = (\<lambda>fig cx cy col. Inr (fig @ '' markers'')),
       savefig = (\<lambda>fig. Inr (''png '' @ fig)),
       write_image = (\<lambda>fig. Inr (''png '' @ fig)),
       close_plotly = (\<lambda>fig. None),
       float_repr = demo_float \<rparr>"

text \<open>The same, with \<^verbatim>\<open>plt.close\<close> rejecting a figure that is not a Matplotlib one.\<close>

definition strict_close_env :: env where
  "strict_close_env =
     demo_env\<lparr>close_plotly :=
       (\<lambda>fig. Some (TypeError ''close() argument must be a Figure, an int, a string, or None''))\<rparr>"

definition demo_inputs :: inputs where
  "demo_inputs =
     \<lparr> uploaded_file = Some demo_table, chart_type = Bar_Chart,
       x_axis = ''sales'', y_axis = ''rate'', color = ''#1f77b4'',
       show_data_points = False, slider = (50, 250),
       generate_button = False, ppt_button = False \<rparr>"

text \<open>Pressing Generate Chart with the defaults, and with the text column on both axes.\<close>

definition generate_inputs :: inputs where
  "generate_inputs = demo_inputs\<lparr>generate_button := True\<rparr>"

definition text_axes_inputs :: inputs where
  "text_axes_inputs = demo_inputs\<lparr>x_axis := ''date'', y_axis := ''date'', generate_button := True\<rparr>"

text \<open>Moving the slider to 100..200, and pressing Download Dashboard as PPT there.\<close>

definition refilter_inputs :: inputs where
  "refilter_inputs = demo_inputs\<lparr>slider := (100, 200)\<rparr>"

definition export_inputs :: inputs where
  "export_inputs = demo_inputs\<lparr>slider := (100, 200), ppt_button := True\<rparr>"

definition demo_filtered :: table where
  "demo_filtered =
     \<lparr> index = [1, 3],
       columns =
         [(''date'', Object [Some ''tue'', Some ''thu'']),
          (''sales'', Int64 [150, 200]),
          (''rate'', Float64 [None, Some 2])] \<rparr>"

text \<open>A session whose ledger holds the bar chart of the defaults.\<close>

definition bar_session :: session where
  "bar_session = \<lparr> charts = Some [(Bar_Chart, ''sales'', ''rate'', ''#1f77b4'')], files = Map.empty \<rparr>"

text \<open>A session whose ledger holds one pie chart.\<close>

definition pie_session :: session where
  "pie_session = \<lparr> charts = Some [(Pie_Chart, ''date'', ''sales'', ''#1f77b4'')], files = Map.empty \<rparr>"

section \<open>Properties\<close>

subsection \<open>The conversion to float64\<close>

lemma f64_exp_small: "n < 9007199254740992 \<Longrightarrow> f64_exp n = 0"
  by (simp add: f64_exp.simps)

lemma f64_of_nat_small: "n < 9007199254740992 \<Longrightarrow> f64_of_nat n = n"
  by (simp add: f64_of_nat_def f64_exp_small)

lemma f64_exp_one: "9007199254740992 \<le> n \<Longrightarrow> n < 18014398509481984 \<Longrightarrow> f64_exp n = Suc 0"
proof -
  assume a: "9007199254740992 \<le> n" "n < 18014398509481984"
  then have "n div 2 < 9007199254740992" by simp
  then have "f64_exp (n div 2) = 0" by (rule f64_exp_small)
  with a show ?thesis by (subst f64_exp.simps) simp
qed

lemma f64_of_nat_2_53: "f64_of_nat 9007199254740992 = 9007199254740992"
  by (simp add: f64_of_nat_def f64_exp_one)

lemma f64_of_nat_exact: "n \<le> 9007199254740992 \<Longrightarrow> f64_of_nat n = n"
  using f64_of_nat_small[of n] f64_of_nat_2_53 by (cases "n = 9007199254740992") auto

lemma f64_of_int_exact: "\<bar>v\<bar> \<le> 9007199254740992 \<Longrightarrow> f64_of_int v = v"
  by (simp add: f64_of_int_def f64_of_nat_exact)



subsection \<open>Row selection\<close>























text \<open>
  C8.  When the dtype of the selected column is not int64 or float64, the filter step
  is skipped: the table passes through unchanged, whatever the bounds.
\<close>

theorem filter_skips_non_numeric:
  assumes "getcol t x = Inr c" and "\<not> dtype_in_int_float c"
  shows "filter_step t x min_val max_val = Inr t"
  using assms by (simp add: filter_step_def)



lemma getcol_demo_date:
  "getcol demo_table ''date'' = Inr (Object [Some ''mon'', Some ''tue'', Some ''wed'', Some ''thu''])"
  by (simp add: demo_table_def getcol_def)






theorem filter_skips_non_numeric_witness:
  "getcol demo_table ''date'' =
     Inr (Object [Some ''mon'', Some ''tue'', Some ''wed'', Some ''thu'']) \<and>
   \<not> dtype_in_int_float (Object [Some ''mon'', Some ''tue'', Some ''wed'', Some ''thu'']) \<and>
   filter_step demo_table ''date'' 100 200 = Inr demo_table"
proof -
  have d: "\<not> dtype_in_int_float (Object [Some ''mon'', Some ''tue'', Some ''wed'', Some ''thu''])"
    by simp
  from filter_skips_non_numeric[OF getcol_demo_date d, of 100 200]
  show ?thesis using getcol_demo_date by simp
qed

subsection \<open>The ledger\<close>

lemma run_charts:
  "init_charts (session_after (run E s inp)) =
     (if generate_ok E inp then init_charts s @ [spec_of inp] else init_charts s)"
  by (auto simp: run_def generate_ok_def generate_handler_def append_chart_def spec_of_def
      init_charts_def Let_def split: option.splits sum.splits prod.splits)


subsection \<open>The CSV download\<close>

lemma csv_downloads_append: "csv_downloads (p @ q) = csv_downloads p @ csv_downloads q"
  by (simp add: csv_downloads_def map_filter_def)

lemma csv_downloads_none:
  "list_all (\<lambda>u. csv_data u = None) p \<Longrightarrow> csv_downloads p = []"
  by (simp add: csv_downloads_def map_filter_def list_all_iff)

lemma csv_none_generate_chart:
  "generate_chart E df ct x y col sdp = Inr shown \<Longrightarrow> list_all (\<lambda>u. csv_data u = None) shown"
  by (cases ct) (auto split: sum.splits if_splits)

lemma csv_downloads_generate_handler:
  "csv_downloads (snd (generate_handler E df ct x y col sdp cs)) = []"
proof (cases "generate_chart E df ct x y col sdp")
  case (Inl e)
  then show ?thesis by (simp add: generate_handler_def csv_downloads_none)
next
  case (Inr shown)
  then show ?thesis
    using csv_none_generate_chart[OF Inr]
    by (simp add: generate_handler_def csv_downloads_none)
qed

lemma csv_downloads_list_charts: "csv_downloads (list_charts cs) = []"
  by (rule csv_downloads_none) (auto simp: list_charts_def list_all_iff)

lemma csv_downloads_download_csv:
  "csv_downloads (download_csv E df) = [export_table (float_repr E) df]"
  by (simp add: download_csv_def csv_downloads_def map_filter_simps)

lemma run_page:
  assumes "uploaded_file inp = Some df0" and "current_table df0 inp = Inr df"
  shows "\<exists>p1 p4. page (run E s inp) =
           [Title app_title, Success ''File uploaded successfully!'',
            Subheader ''Preview of the Dataset'', Write_table (df_head df0),
            Sidebar_header ''Visualization Settings''] @ p1 @
           list_charts (init_charts (session_after (run E s inp))) @ download_csv E df @ p4 \<and>
           csv_downloads p1 = [] \<and> csv_downloads p4 = []"
proof -
  let ?gen = "x_axis inp \<noteq> [] \<and> y_axis inp \<noteq> [] \<and> generate_button inp"
  let ?h = "generate_handler E df (chart_type inp) (x_axis inp) (y_axis inp)
              (color inp) (show_data_points inp) (init_charts s)"
  let ?p1 = "if ?gen then snd ?h else []"
  have c1: "csv_downloads ?p1 = []"
    by (simp add: csv_downloads_generate_handler) (simp add: csv_downloads_def map_filter_simps)
  have c4: "\<And>prs. csv_downloads [Download_ppt ''Download PPT'' prs ''dashboard.pptx'' pptx_mime] = []"
    by (simp add: csv_downloads_def map_filter_simps)
  have c0: "csv_downloads [] = []" by (simp add: csv_downloads_def map_filter_simps)
  show ?thesis
  proof (cases "ppt_button inp")
    case False
    then show ?thesis
      using assms c1 c0
      by (intro exI[of _ ?p1] exI[of _ "[]"])
         (auto simp: run_def Let_def init_charts_def split: prod.splits)
  next
    case True
    obtain fs' r where ex: "export_slides E (if ?gen then fst ?h else init_charts s) df (files s) = (fs', r)"
      by (cases "export_slides E (if ?gen then fst ?h else init_charts s) df (files s)") auto
    show ?thesis
    proof (cases r)
      case (Inl e)
      then show ?thesis
        using assms c1 c0 True ex
        by (intro exI[of _ ?p1] exI[of _ "[]"])
           (auto simp: run_def Let_def init_charts_def split: prod.splits)
    next
      case (Inr prs)
      then show ?thesis
        using assms c1 c4 True ex
        by (intro exI[of _ ?p1] exI[of _ "[Download_ppt ''Download PPT'' prs ''dashboard.pptx'' pptx_mime]"])
           (auto simp: run_def Let_def init_charts_def split: prod.splits)
    qed
  qed
qed

lemma run_csv:
  assumes "uploaded_file inp = Some df0" and "current_table df0 inp = Inr df"
  shows "csv_downloads (page (run E s inp)) = [export_table (float_repr E) df]"
proof -
  obtain p1 p4 where "page (run E s inp) =
           [Title app_title, Success ''File uploaded successfully!'',
            Subheader ''Preview of the Dataset'', Write_table (df_head df0),
            Sidebar_header ''Visualization Settings''] @ p1 @
           list_charts (init_charts (session_after (run E s inp))) @ download_csv E df @ p4"
     "csv_downloads p1 = []" "csv_downloads p4 = []"
    using run_page[OF assms] by blast
  moreover have "csv_downloads [Title app_title, Success ''File uploaded successfully!'',
            Subheader ''Preview of the Dataset'', Write_table (df_head df0),
            Sidebar_header ''Visualization Settings''] = []"
    by (simp add: csv_downloads_def map_filter_simps)
  ultimately show ?thesis
    by (simp only: csv_downloads_append csv_downloads_list_charts csv_downloads_download_csv)
       simp
qed

text \<open>
  C7.  The CSV a run offers depends on the current table only (and on how floats are
  printed): it is \<open>export_table\<close> of that table, so two runs with the same current table
  offer the same bytes, whatever the session state, the buttons pressed, the other
  widgets or the plotting libraries do.
\<close>

theorem export_table_pure:
  assumes "uploaded_file inp1 = Some t1" and "current_table t1 inp1 = Inr df"
    and "uploaded_file inp2 = Some t2" and "current_table t2 inp2 = Inr df"
    and "float_repr E1 = float_repr E2"
  shows "csv_downloads (page (run E1 s1 inp1)) = [export_table (float_repr E1) df] \<and>
         csv_downloads (page (run E2 s2 inp2)) = csv_downloads (page (run E1 s1 inp1))"
  using assms by (simp add: run_csv)















subsection \<open>A failing Generate Chart\<close>

text \<open>
  C5, amended.  If the renderer raises while Generate Chart is handled, the page shows
  the message \<open>Error generating visualization:\<close> followed by the text of the exception,
  and the ledger is left exactly as it was: the failing entry is not recorded.
\<close>

theorem generate_failure_reported:
  assumes "uploaded_file inp = Some df0" and "current_table df0 inp = Inr df"
    and "x_axis inp \<noteq> []" and "y_axis inp \<noteq> []" and "generate_button inp"
    and "generate_chart E df (chart_type inp) (x_axis inp) (y_axis inp) (color inp)
           (show_data_points inp) = Inl e"
  shows "Error (''Error generating visualization: '' @ exn_str e) \<in> set (page (run E s inp)) \<and>
         init_charts (session_after (run E s inp)) = init_charts s"
proof -
  have "\<not> generate_ok E inp" using assms by (simp add: generate_ok_def)
  then have c: "init_charts (session_after (run E s inp)) = init_charts s"
    by (simp add: run_charts)
  have "Error (''Error generating visualization: '' @ exn_str e) \<in> set (page (run E s inp))"
    using assms by (auto simp: run_def Let_def generate_handler_def split: prod.splits sum.splits)
  with c show ?thesis by simp
qed

subsection \<open>The sample inputs\<close>

lemmas demo_defs = demo_inputs_def generate_inputs_def text_axes_inputs_def refilter_inputs_def
  export_inputs_def demo_table_def demo_env_def demo_sns_def demo_figure_def is_numeric_name_def
  new_session_def pie_session_def strict_close_env_def

lemma current_demo: "current_table demo_table demo_inputs = Inr demo_table"
  by (simp add: current_table_def filter_step_def range_filter_def getcol_def select_rows_def
      mask_and_def pick_def demo_defs f64_of_int_exact)

lemma current_generate: "current_table demo_table generate_inputs = Inr demo_table"
  by (simp add: current_table_def filter_step_def range_filter_def getcol_def select_rows_def
      mask_and_def pick_def demo_defs f64_of_int_exact)

lemma current_refilter: "current_table demo_table refilter_inputs = Inr demo_filtered"
  by (simp add: current_table_def filter_step_def range_filter_def getcol_def select_rows_def
      mask_and_def pick_def demo_defs demo_filtered_def f64_of_int_exact)

lemma current_export: "current_table demo_table export_inputs = Inr demo_filtered"
  by (simp add: current_table_def filter_step_def range_filter_def getcol_def select_rows_def
      mask_and_def pick_def demo_defs demo_filtered_def f64_of_int_exact)

lemma current_text: "current_table demo_table text_axes_inputs = Inr demo_table"
  by (simp add: current_table_def filter_step_def range_filter_def getcol_def select_rows_def
      mask_and_def pick_def demo_defs f64_of_int_exact)

lemma str_nat_digit: "n < 10 \<Longrightarrow> str_nat n = [''0123456789'' ! n]"
  by (simp add: str_nat.simps)

lemma gen_ok: "generate_ok demo_env generate_inputs"
  using current_generate
  by (simp add: generate_ok_def) (simp add: demo_defs getcol_def)

lemma refilter_not_gen: "\<not> generate_ok demo_env refilter_inputs"
  by (simp add: generate_ok_def demo_defs split: sum.splits)

lemma text_chart_fails:
  "generate_chart demo_env demo_table Bar_Chart ''date'' ''date'' ''#1f77b4'' False =
     Inl (TypeError ''Neither the x nor y variable appears to be numeric.'')"
  by (simp add: demo_defs getcol_def)

text \<open>
  C4.  The ledger is order-preserving and append-only.  After any sequence of runs of the
  script, whatever the widgets and buttons of each run, the ledger is the ledger the
  session started with followed by the entries of exactly those runs that reached
  line 91, in the order of the runs: nothing is removed, reordered or merged, and two
  runs with the same selection leave two entries.
\<close>

theorem ledger_append_only:
  "init_charts (runs E s inps) = init_charts s @ map spec_of (filter (generate_ok E) inps)"
proof (induction inps arbitrary: s)
  case Nil
  show ?case by simp
next
  case (Cons inp inps)
  let ?s1 = "session_after (run E s inp)"
  have "init_charts (runs E s (inp # inps)) = init_charts (runs E ?s1 inps)" by simp
  also have "\<dots> = init_charts ?s1 @ map spec_of (filter (generate_ok E) inps)"
    by (rule Cons.IH)
  also have "init_charts ?s1 =
      (if generate_ok E inp then init_charts s @ [spec_of inp] else init_charts s)"
    by (rule run_charts)
  finally show ?case by simp
qed

text \<open>Generate, move the slider, generate again: the same entry twice.\<close>

theorem ledger_append_only_witness:
  "init_charts (runs demo_env new_session [generate_inputs, refilter_inputs, generate_inputs]) =
     [(Bar_Chart, ''sales'', ''rate'', ''#1f77b4''), (Bar_Chart, ''sales'', ''rate'', ''#1f77b4'')]"
proof -
  have "init_charts new_session = []" by (simp add: new_session_def init_charts_def)
  moreover have "spec_of generate_inputs = (Bar_Chart, ''sales'', ''rate'', ''#1f77b4'')"
    by (simp add: spec_of_def demo_defs)
  ultimately show ?thesis
    using ledger_append_only[of demo_env new_session "[generate_inputs, refilter_inputs, generate_inputs]"]
      gen_ok refilter_not_gen by simp
qed

text \<open>
  C5 as stated fails.  A bar chart of the text column against itself is refused by the
  renderer; the page shows the error message, and the entry is not in the ledger.
\<close>

theorem failed_generate_not_recorded_counterexample:
  "error_messages (page (run demo_env new_session text_axes_inputs)) =
     [''Error generating visualization: Neither the x nor y variable appears to be numeric.''] \<and>
   spec_of text_axes_inputs \<notin> set (init_charts (session_after (run demo_env new_session text_axes_inputs)))"
proof -
  have up: "uploaded_file text_axes_inputs = Some demo_table" by (simp add: demo_defs)
  have f: "generate_chart demo_env demo_table (chart_type text_axes_inputs) (x_axis text_axes_inputs)
      (y_axis text_axes_inputs) (color text_axes_inputs) (show_data_points text_axes_inputs) =
      Inl (TypeError ''Neither the x nor y variable appears to be numeric.'')"
    using text_chart_fails by (simp add: demo_defs)
  have "\<not> generate_ok demo_env text_axes_inputs"
    using up current_text f by (simp add: generate_ok_def)
  then have l: "init_charts (session_after (run demo_env new_session text_axes_inputs)) = []"
    by (simp add: run_charts) (simp add: new_session_def init_charts_def)
  have b: "x_axis text_axes_inputs \<noteq> [] \<and> y_axis text_axes_inputs \<noteq> [] \<and>
           generate_button text_axes_inputs \<and> \<not> ppt_button text_axes_inputs"
    by (simp add: demo_defs)
  have "error_messages (page (run demo_env new_session text_axes_inputs)) =
     [''Error generating visualization: Neither the x nor y variable appears to be numeric.'']"
    using up current_text f b
    by (simp add: run_def Let_def generate_handler_def error_messages_def map_filter_simps
        list_charts_def download_csv_def init_charts_def new_session_def)
  with l show ?thesis by simp
qed

text \<open>The same failure in a session whose ledger already holds an entry.\<close>

theorem generate_failure_reported_witness:
  "uploaded_file text_axes_inputs = Some demo_table \<and>
   current_table demo_table text_axes_inputs = Inr demo_table \<and>
   x_axis text_axes_inputs \<noteq> [] \<and> y_axis text_axes_inputs \<noteq> [] \<and>
   generate_button text_axes_inputs \<and>
   generate_chart demo_env demo_table (chart_type text_axes_inputs) (x_axis text_axes_inputs)
      (y_axis text_axes_inputs) (color text_axes_inputs) (show_data_points text_axes_inputs) =
      Inl (TypeError ''Neither the x nor y variable appears to be numeric.'') \<and>
   Error ''Error generating visualization: Neither the x nor y variable appears to be numeric.''
     \<in> set (page (run demo_env pie_session text_axes_inputs)) \<and>
   init_charts (session_after (run demo_env pie_session text_axes_inputs)) =
     [(Pie_Chart, ''date'', ''sales'', ''#1f77b4'')]"
proof -
  have up: "uploaded_file text_axes_inputs = Some demo_table" by (simp add: demo_defs)
  have f: "generate_chart demo_env demo_table (chart_type text_axes_inputs) (x_axis text_axes_inputs)
      (y_axis text_axes_inputs) (color text_axes_inputs) (show_data_points text_axes_inputs) =
      Inl (TypeError ''Neither the x nor y variable appears to be numeric.'')"
    using text_chart_fails by (simp add: demo_defs)
  have x: "x_axis text_axes_inputs \<noteq> []" and y: "y_axis text_axes_inputs \<noteq> []"
    and g: "generate_button text_axes_inputs"
    by (simp_all add: demo_defs)
  have i: "init_charts pie_session = [(Pie_Chart, ''date'', ''sales'', ''#1f77b4'')]"
    by (simp add: pie_session_def init_charts_def)
  from generate_failure_reported[OF up current_text x y g f, of pie_session]
  show ?thesis using up current_text x y g f i by simp
qed




text \<open>A plain run and an export run whose slide export raises offer the same CSV.\<close>

theorem export_table_pure_witness:
  "uploaded_file refilter_inputs = Some demo_table \<and>
   current_table demo_table refilter_inputs = Inr demo_filtered \<and>
   uploaded_file export_inputs = Some demo_table \<and>
   current_table demo_table export_inputs = Inr demo_filtered \<and>
   float_repr demo_env = float_repr strict_close_env \<and>
   csv_downloads (page (run demo_env new_session refilter_inputs)) =
     [export_table (float_repr demo_env) demo_filtered] \<and>
   csv_downloads (page (run strict_close_env pie_session export_inputs)) =
     csv_downloads (page (run demo_env new_session refilter_inputs))"
proof -
  have u1: "uploaded_file refilter_inputs = Some demo_table"
    and u2: "uploaded_file export_inputs = Some demo_table"
    by (simp_all add: demo_defs)
  have fr: "float_repr demo_env = float_repr strict_close_env"
    by (simp add: strict_close_env_def)
  from export_table_pure[OF u1 current_refilter u2 current_export fr, of new_session pie_session]
  show ?thesis using u1 u2 current_refilter current_export fr by simp
qed

subsection \<open>The slide export\<close>

lemma digit_inj:
  assumes "a < 10" "b < 10" "''0123456789'' ! a = ''0123456789'' ! b"
  shows "a = b"
proof -
  have d: "distinct ''0123456789''" by simp
  have l: "length ''0123456789'' = 10" by simp
  show ?thesis using assms nth_eq_iff_index_eq[OF d, of a b] l by simp
qed

lemma str_nat_nonempty: "str_nat n \<noteq> []"
  by (subst str_nat.simps) simp

lemma str_nat_inj: "str_nat m = str_nat n \<Longrightarrow> m = n"
proof (induction m arbitrary: n rule: str_nat.induct)
  case (1 m)
  show ?case
  proof (cases "m < 10")
    case True
    then have sm: "str_nat m = [''0123456789'' ! m]" by (rule str_nat_digit)
    show ?thesis
    proof (cases "n < 10")
      case True
      then have "str_nat n = [''0123456789'' ! n]" by (rule str_nat_digit)
      with sm "1.prems" have "''0123456789'' ! m = ''0123456789'' ! n" by simp
      with \<open>m < 10\<close> \<open>n < 10\<close> show ?thesis by (rule digit_inj)
    next
      case False
      then have "str_nat n = str_nat (n div 10) @ [''0123456789'' ! (n mod 10)]"
        by (subst str_nat.simps) simp
      with sm "1.prems" str_nat_nonempty[of "n div 10"] show ?thesis by simp
    qed
  next
    case False
    then have sm: "str_nat m = str_nat (m div 10) @ [''0123456789'' ! (m mod 10)]"
      by (subst str_nat.simps) simp
    show ?thesis
    proof (cases "n < 10")
      case True
      then have "str_nat n = [''0123456789'' ! n]" by (rule str_nat_digit)
      with sm "1.prems" str_nat_nonempty[of "m div 10"] show ?thesis by simp
    next
      case nf: False
      then have sn: "str_nat n = str_nat (n div 10) @ [''0123456789'' ! (n mod 10)]"
        by (subst str_nat.simps) simp
      from sm sn "1.prems" have e1: "str_nat (m div 10) = str_nat (n div 10)"
        and e2: "''0123456789'' ! (m mod 10) = ''0123456789'' ! (n mod 10)" by simp_all
      from "1.IH"[OF False e1] have d: "m div 10 = n div 10" .
      have "m mod 10 = n mod 10" by (rule digit_inj[OF _ _ e2]) simp_all
      with d show ?thesis by (metis div_mult_mod_eq)
    qed
  qed
qed

lemma chart_file_inj: "chart_file m = chart_file n \<Longrightarrow> m = n"
  by (simp add: chart_file_def str_nat_inj)

lemma Inches_values: "Inches 1 = 914400" "Inches 6 = 5486400" "Inches 4 = 3657600"
  by (simp_all add: Inches_def)

lemma export_entry_ok:
  assumes "export_entry E df fs idx c = (fs', Inr s)"
  shows "\<exists>fig png. chart_png E df c = Inr (fig, png) \<and> fs' = fs(chart_file idx \<mapsto> png) \<and>
           title s = slide_title c \<and>
           pictures s = (if fst c = Pie_Chart then [] else [placed png])"
  using assms
  by (auto simp: export_entry_def Let_def add_picture_def placed_def Inches_values
      split: sum.splits prod.splits option.splits if_splits)

lemma export_entry_files:
  assumes "export_entry E df fs idx c = (fs', r)" and "n \<noteq> idx"
  shows "fs' (chart_file n) = fs (chart_file n)"
  using assms chart_file_inj[of n idx]
  by (auto simp: export_entry_def Let_def add_picture_def
      split: sum.splits prod.splits option.splits if_splits)

lemma export_loop_files:
  "export_loop E df idx cs fs prs = (fs', r) \<Longrightarrow> n < idx \<Longrightarrow>
   fs' (chart_file n) = fs (chart_file n)"
proof (induction cs arbitrary: idx fs prs)
  case Nil
  then show ?case by simp
next
  case (Cons c cs)
  obtain fs1 r1 where e: "export_entry E df fs idx c = (fs1, r1)"
    by (cases "export_entry E df fs idx c") auto
  have f1: "fs1 (chart_file n) = fs (chart_file n)"
    using export_entry_files[OF e, of n] Cons.prems(2) by simp
  show ?case
  proof (cases r1)
    case (Inl e1)
    with e Cons.prems(1) have "fs' = fs1" by simp
    with f1 show ?thesis by simp
  next
    case (Inr s1)
    with e Cons.prems(1) have "export_loop E df (Suc idx) cs fs1 (prs @ [s1]) = (fs', r)" by simp
    from Cons.IH[OF this] Cons.prems(2) f1 show ?thesis by simp
  qed
qed

lemma export_loop_ok:
  "export_loop E df idx cs fs prs = (fs', Inr out) \<Longrightarrow>
   length out = length prs + length cs \<and> take (length prs) out = prs \<and>
   (\<forall>i<length cs. \<exists>fig png.
      chart_png E df (cs ! i) = Inr (fig, png) \<and>
      fs' (chart_file (idx + i)) = Some png \<and>
      title (out ! (length prs + i)) = slide_title (cs ! i) \<and>
      pictures (out ! (length prs + i)) =
        (if fst (cs ! i) = Pie_Chart then [] else [placed png]))"
proof (induction cs arbitrary: idx fs prs)
  case Nil
  then show ?case by simp
next
  case (Cons c cs)
  obtain fs1 r1 where e: "export_entry E df fs idx c = (fs1, r1)"
    by (cases "export_entry E df fs idx c") auto
  from e Cons.prems obtain s1 where r1: "r1 = Inr s1"
    by (cases r1) auto
  with e Cons.prems have loop: "export_loop E df (Suc idx) cs fs1 (prs @ [s1]) = (fs', Inr out)"
    by simp
  from export_entry_ok[OF e[unfolded r1]] obtain fig png where
    c: "chart_png E df c = Inr (fig, png)" and fs1: "fs1 = fs(chart_file idx \<mapsto> png)"
    and t: "title s1 = slide_title c"
    and p: "pictures s1 = (if fst c = Pie_Chart then [] else [placed png])"
    by blast
  from Cons.IH[OF loop] have
    len: "length out = length (prs @ [s1]) + length cs"
    and tk: "take (length (prs @ [s1])) out = prs @ [s1]"
    and rest: "\<forall>i<length cs. \<exists>fig png.
      chart_png E df (cs ! i) = Inr (fig, png) \<and>
      fs' (chart_file (Suc idx + i)) = Some png \<and>
      title (out ! (length (prs @ [s1]) + i)) = slide_title (cs ! i) \<and>
      pictures (out ! (length (prs @ [s1]) + i)) =
        (if fst (cs ! i) = Pie_Chart then [] else [placed png])"
    by blast+
  have tk0: "take (length prs) out = prs"
  proof -
    have "take (length prs) (take (length (prs @ [s1])) out) = take (length prs) (prs @ [s1])"
      by (simp only: tk)
    then show ?thesis by (simp add: min_def)
  qed
  have at: "out ! length prs = s1"
  proof -
    have "out ! length prs = take (length (prs @ [s1])) out ! length prs" by simp
    also have "\<dots> = (prs @ [s1]) ! length prs" by (simp only: tk)
    finally show ?thesis by simp
  qed
  have file0: "fs' (chart_file idx) = Some png"
    using export_loop_files[OF loop, of idx] fs1 by simp
  have "\<exists>fig png.
      chart_png E df ((c # cs) ! i) = Inr (fig, png) \<and>
      fs' (chart_file (idx + i)) = Some png \<and>
      title (out ! (length prs + i)) = slide_title ((c # cs) ! i) \<and>
      pictures (out ! (length prs + i)) =
        (if fst ((c # cs) ! i) = Pie_Chart then [] else [placed png])"
    if "i < length (c # cs)" for i
  proof (cases i)
    case 0
    then show ?thesis using c file0 t p at by auto
  next
    case (Suc j)
    with that have "j < length cs" by simp
    with rest Suc show ?thesis by simp
  qed
  with len tk0 show ?case by simp
qed

text \<open>
  What a finished export holds: one slide for each ledger entry, in ledger order, titled
  from the entry; the slide of an entry that is not a pie chart holds the image drawn
  from \<open>df\<close>, one inch from the left and top, six inches wide and four high; the slide
  of a pie chart holds no picture.
\<close>

lemma export_slides_layout:
  assumes "export_slides E cs df fs = (fs', Inr prs)"
  shows "length prs = length cs \<and>
         (\<forall>i<length cs. \<exists>fig png.
            chart_png E df (cs ! i) = Inr (fig, png) \<and>
            title (prs ! i) = slide_title (cs ! i) \<and>
            pictures (prs ! i) = (if fst (cs ! i) = Pie_Chart then [] else [placed png]))"
proof -
  from assms have "export_loop E df 0 cs fs [] = (fs', Inr prs)"
    by (simp add: export_slides_def)
  from export_loop_ok[OF this] have len: "length prs = length cs"
    and each: "\<forall>i<length cs. \<exists>fig png.
      chart_png E df (cs ! i) = Inr (fig, png) \<and>
      fs' (chart_file i) = Some png \<and>
      title (prs ! i) = slide_title (cs ! i) \<and>
      pictures (prs ! i) = (if fst (cs ! i) = Pie_Chart then [] else [placed png])"
    by simp_all
  have "\<exists>fig png.
            chart_png E df (cs ! i) = Inr (fig, png) \<and>
            title (prs ! i) = slide_title (cs ! i) \<and>
            pictures (prs ! i) = (if fst (cs ! i) = Pie_Chart then [] else [placed png])"
    if "i < length cs" for i
  proof -
    from each that obtain fig png where
      "chart_png E df (cs ! i) = Inr (fig, png)" "title (prs ! i) = slide_title (cs ! i)"
      "pictures (prs ! i) = (if fst (cs ! i) = Pie_Chart then [] else [placed png])"
      by blast
    then show ?thesis by (intro exI[of _ fig] exI[of _ png]) simp
  qed
  with len show ?thesis by blast
qed

lemma ppt_downloads_append: "ppt_downloads (p @ q) = ppt_downloads p @ ppt_downloads q"
  by (simp add: ppt_downloads_def map_filter_def)

lemma ppt_downloads_none:
  "list_all (\<lambda>u. ppt_data u = None) p \<Longrightarrow> ppt_downloads p = []"
  by (simp add: ppt_downloads_def map_filter_def list_all_iff)

lemma ppt_downloads_fixed:
  "ppt_downloads ([Title app_title, Success ''File uploaded successfully!'',
            Subheader ''Preview of the Dataset'', Write_table (df_head df0),
            Sidebar_header ''Visualization Settings''] @ list_charts cs @ download_csv E df) = []"
  by (rule ppt_downloads_none) (auto simp: list_charts_def download_csv_def list_all_iff)

lemma run_export:
  assumes up: "uploaded_file inp = Some df0" and cur: "current_table df0 inp = Inr df"
    and ppt: "ppt_button inp" and gen: "\<not> generate_button inp"
    and ex: "export_slides E (init_charts s) df (files s) = (fs', r)"
  shows "session_after (run E s inp) = \<lparr>charts = Some (init_charts s), files = fs'\<rparr> \<and>
         uncaught (run E s inp) = (case r of Inl e \<Rightarrow> Some e | Inr prs \<Rightarrow> None) \<and>
         ppt_downloads (page (run E s inp)) = (case r of Inl e \<Rightarrow> [] | Inr prs \<Rightarrow> [prs]) \<and>
         error_messages (page (run E s inp)) = []"
proof -
  let ?p = "[Title app_title, Success ''File uploaded successfully!'',
            Subheader ''Preview of the Dataset'', Write_table (df_head df0),
            Sidebar_header ''Visualization Settings''] @ list_charts (init_charts s) @ download_csv E df"
  have pg: "page (run E s inp) =
      ?p @ (case r of Inl e \<Rightarrow> [] | Inr prs \<Rightarrow> [Download_ppt ''Download PPT'' prs ''dashboard.pptx'' pptx_mime])"
    using assms by (cases r) (simp_all add: run_def Let_def)
  have e0: "error_messages ?p = []"
    by (auto simp: error_messages_def map_filter_def list_charts_def download_csv_def)
  have "error_messages (page (run E s inp)) = []"
    unfolding pg using e0 by (cases r) (simp_all add: error_messages_def map_filter_def)
  moreover have "ppt_downloads (page (run E s inp)) = (case r of Inl e \<Rightarrow> [] | Inr prs \<Rightarrow> [prs])"
    unfolding pg ppt_downloads_append[of ?p] ppt_downloads_fixed
    by (cases r) (simp_all add: ppt_downloads_def map_filter_simps)
  moreover have "session_after (run E s inp) = \<lparr>charts = Some (init_charts s), files = fs'\<rparr>"
    using assms by (cases r) (simp_all add: run_def Let_def)
  moreover have "uncaught (run E s inp) = (case r of Inl e \<Rightarrow> Some e | Inr prs \<Rightarrow> None)"
    using assms by (cases r) (simp_all add: run_def Let_def)
  ultimately show ?thesis by simp
qed

text \<open>
  C1.  A run that exports the slides (and does not generate) on the table \<open>df\<close>, the
  uploaded table filtered with the slider values of this very run, leaves the ledger
  as it was, and when it ends without an exception it offers one slide document with a
  slide for each ledger entry, where for every entry the image was drawn from \<open>df\<close>:
  it is the content of the file \<open>chart_i.png\<close> afterwards and of every picture on the
  entry's slide.  The ledger entries hold no table; no table of an earlier run enters.
\<close>

theorem export_uses_current_table:
  assumes up: "uploaded_file inp = Some df0" and cur: "current_table df0 inp = Inr df"
    and ppt: "ppt_button inp" and gen: "\<not> generate_button inp"
    and ok: "uncaught (run E s inp) = None"
  shows "init_charts (session_after (run E s inp)) = init_charts s \<and>
         (\<exists>prs. ppt_downloads (page (run E s inp)) = [prs] \<and>
            length prs = length (init_charts s) \<and>
            (\<forall>i<length (init_charts s). \<exists>fig png.
               chart_png E df (init_charts s ! i) = Inr (fig, png) \<and>
               files (session_after (run E s inp)) (chart_file i) = Some png \<and>
               (\<forall>pic\<in>set (pictures (prs ! i)). image pic = png)))"
proof -
  obtain fs' r where ex: "export_slides E (init_charts s) df (files s) = (fs', r)"
    by (cases "export_slides E (init_charts s) df (files s)") auto
  note R = run_export[OF up cur ppt gen ex]
  from R ok obtain prs where r: "r = Inr prs" by (cases r) auto
  from ex r have loop: "export_loop E df 0 (init_charts s) (files s) [] = (fs', Inr prs)"
    by (simp add: export_slides_def)
  from export_loop_ok[OF loop] have len: "length prs = length (init_charts s)"
    and each: "\<forall>i<length (init_charts s). \<exists>fig png.
      chart_png E df (init_charts s ! i) = Inr (fig, png) \<and>
      fs' (chart_file i) = Some png \<and>
      title (prs ! i) = slide_title (init_charts s ! i) \<and>
      pictures (prs ! i) = (if fst (init_charts s ! i) = Pie_Chart then [] else [placed png])"
    by simp_all
  have sa: "session_after (run E s inp) = \<lparr>charts = Some (init_charts s), files = fs'\<rparr>"
    using R by simp
  have "\<exists>fig png. chart_png E df (init_charts s ! i) = Inr (fig, png) \<and>
               files (session_after (run E s inp)) (chart_file i) = Some png \<and>
               (\<forall>pic\<in>set (pictures (prs ! i)). image pic = png)"
    if "i < length (init_charts s)" for i
  proof -
    from each that obtain fig png where
      "chart_png E df (init_charts s ! i) = Inr (fig, png)" "fs' (chart_file i) = Some png"
      "pictures (prs ! i) = (if fst (init_charts s ! i) = Pie_Chart then [] else [placed png])"
      by blast
    then show ?thesis by (auto simp: sa placed_def intro!: exI[of _ fig] exI[of _ png])
  qed
  moreover have "ppt_downloads (page (run E s inp)) = [prs]" using R r by simp
  moreover have "init_charts (session_after (run E s inp)) = init_charts s"
    by (simp add: sa init_charts_def)
  ultimately show ?thesis using len by blast
qed

lemma export_pie_demo:
  "export_slides demo_env [(Pie_Chart, ''date'', ''sales'', ''#1f77b4'')] demo_filtered Map.empty =
     (Map.empty(''chart_0.png'' \<mapsto> ''png px Pie Chart date sales rows=2''),
      Inr [\<lparr>title = ''Pie Chart - X: date, Y: sales'', pictures = []\<rparr>])"
  by (simp add: export_slides_def export_entry_def chart_file_def str_nat.simps demo_env_def
      demo_figure_def demo_filtered_def)

lemma export_pie_strict:
  "export_slides strict_close_env [(Pie_Chart, ''date'', ''sales'', ''#1f77b4'')] demo_filtered Map.empty =
     (Map.empty(''chart_0.png'' \<mapsto> ''png px Pie Chart date sales rows=2''),
      Inl (TypeError ''close() argument must be a Figure, an int, a string, or None''))"
  by (simp add: export_slides_def export_entry_def chart_file_def str_nat.simps demo_env_def
      demo_figure_def demo_filtered_def strict_close_env_def)

lemma init_charts_Some: "init_charts \<lparr>charts = Some cs, files = fs\<rparr> = cs"
  by (simp add: init_charts_def)

lemma export_inputs_facts:
  "uploaded_file export_inputs = Some demo_table" "ppt_button export_inputs"
  "\<not> generate_button export_inputs"
  by (simp_all add: demo_defs)

lemma pie_session_facts:
  "init_charts pie_session = [(Pie_Chart, ''date'', ''sales'', ''#1f77b4'')]"
  "files pie_session = Map.empty"
  by (simp_all add: pie_session_def init_charts_def)

text \<open>
  C2 fails at a pie chart.  With every library call succeeding, the export of the ledger
  holding one pie chart ends normally; the image file is written, and the slide has its
  title but no picture.
\<close>

theorem pie_slide_without_picture:
  "uncaught (run demo_env pie_session export_inputs) = None \<and>
   ppt_downloads (page (run demo_env pie_session export_inputs)) =
     [[\<lparr>title = ''Pie Chart - X: date, Y: sales'', pictures = []\<rparr>]] \<and>
   files (session_after (run demo_env pie_session export_inputs)) ''chart_0.png'' =
     Some ''png px Pie Chart date sales rows=2''"
  using run_export[OF export_inputs_facts(1) current_export export_inputs_facts(2,3),
      of demo_env pie_session] export_pie_demo
  by (simp add: pie_session_facts)

text \<open>
  C9 fails at the export.  When a library call of the export loop raises (here
  \<^verbatim>\<open>plt.close\<close> given the Plotly figure), the exception leaves the script: the page
  shows no error message and offers no slide document.  The ledger is unchanged.
\<close>

theorem export_error_uncaught:
  "uncaught (run strict_close_env pie_session export_inputs) =
     Some (TypeError ''close() argument must be a Figure, an int, a string, or None'') \<and>
   error_messages (page (run strict_close_env pie_session export_inputs)) = [] \<and>
   ppt_downloads (page (run strict_close_env pie_session export_inputs)) = [] \<and>
   init_charts (session_after (run strict_close_env pie_session export_inputs)) =
     init_charts pie_session"
  using run_export[OF export_inputs_facts(1) current_export export_inputs_facts(2,3),
      of strict_close_env pie_session] export_pie_strict
  by (simp add: pie_session_facts init_charts_Some)

lemma generate_demo:
  "session_after (run demo_env new_session generate_inputs) = bar_session \<and>
   Pyplot ''sns Bar Chart sales rate rows=4'' \<in> set (page (run demo_env new_session generate_inputs))"
proof -
  have up: "uploaded_file generate_inputs = Some demo_table" by (simp add: demo_defs)
  have b: "x_axis generate_inputs = ''sales''" "y_axis generate_inputs = ''rate''"
    "generate_button generate_inputs" "\<not> ppt_button generate_inputs"
    "chart_type generate_inputs = Bar_Chart" "color generate_inputs = ''#1f77b4''"
    by (simp_all add: demo_defs)
  have g: "generate_chart demo_env demo_table Bar_Chart ''sales'' ''rate'' ''#1f77b4''
             (show_data_points generate_inputs) = Inr [Pyplot ''sns Bar Chart sales rate rows=4'']"
    by (simp add: demo_env_def demo_sns_def demo_figure_def is_numeric_name_def getcol_def
        demo_table_def str_nat.simps)
  show ?thesis
    using up current_generate b g
    by (simp add: run_def Let_def generate_handler_def append_chart_def bar_session_def
        new_session_def init_charts_def)
qed

lemma export_bar_demo:
  "export_slides demo_env [(Bar_Chart, ''sales'', ''rate'', ''#1f77b4'')] demo_filtered Map.empty =
     (Map.empty(''chart_0.png'' \<mapsto> ''png sns Bar Chart sales rate rows=2''),
      Inr [\<lparr>title = ''Bar Chart - X: sales, Y: rate'',
            pictures = [placed ''png sns Bar Chart sales rate rows=2'']\<rparr>])"
  by (simp add: export_slides_def export_entry_def chart_file_def str_nat.simps demo_env_def
      demo_sns_def is_numeric_name_def getcol_def add_picture_def placed_def Inches_values
      demo_figure_def demo_filtered_def)

lemma bar_session_facts:
  "init_charts bar_session = [(Bar_Chart, ''sales'', ''rate'', ''#1f77b4'')]"
  "files bar_session = Map.empty"
  by (simp_all add: bar_session_def init_charts_def)

text \<open>
  Generate on four rows, then export with the slider at 100..200: the ledger is the
  same and the image is drawn from the two rows left.
\<close>

theorem export_uses_current_table_witness:
  "session_after (run demo_env new_session generate_inputs) = bar_session \<and>
   Pyplot ''sns Bar Chart sales rate rows=4'' \<in> set (page (run demo_env new_session generate_inputs)) \<and>
   uploaded_file export_inputs = Some demo_table \<and>
   current_table demo_table export_inputs = Inr demo_filtered \<and>
   ppt_button export_inputs \<and> \<not> generate_button export_inputs \<and>
   uncaught (run demo_env bar_session export_inputs) = None \<and>
   init_charts (session_after (run demo_env bar_session export_inputs)) =
     [(Bar_Chart, ''sales'', ''rate'', ''#1f77b4'')] \<and>
   files (session_after (run demo_env bar_session export_inputs)) ''chart_0.png'' =
     Some ''png sns Bar Chart sales rate rows=2''"
proof -
  have ok: "uncaught (run demo_env bar_session export_inputs) = None"
    using run_export[OF export_inputs_facts(1) current_export export_inputs_facts(2,3),
      of demo_env bar_session] export_bar_demo
    by (simp add: bar_session_facts)
  from export_uses_current_table[OF export_inputs_facts(1) current_export
      export_inputs_facts(2,3) ok]
  have c: "init_charts (session_after (run demo_env bar_session export_inputs)) = init_charts bar_session"
    and "\<exists>fig png. chart_png demo_env demo_filtered (init_charts bar_session ! 0) = Inr (fig, png) \<and>
           files (session_after (run demo_env bar_session export_inputs)) (chart_file 0) = Some png"
    by (auto simp: bar_session_facts)
  then obtain fig png where
    p: "chart_png demo_env demo_filtered (Bar_Chart, ''sales'', ''rate'', ''#1f77b4'') = Inr (fig, png)"
    and f: "files (session_after (run demo_env bar_session export_inputs)) (chart_file 0) = Some png"
    by (auto simp: bar_session_facts)
  have "chart_png demo_env demo_filtered (Bar_Chart, ''sales'', ''rate'', ''#1f77b4'') =
        Inr (''sns Bar Chart sales rate rows=2'', ''png sns Bar Chart sales rate rows=2'')"
    by (simp add: demo_env_def demo_sns_def is_numeric_name_def getcol_def demo_figure_def
        demo_filtered_def str_nat.simps)
  with p have "png = ''png sns Bar Chart sales rate rows=2''" by simp
  moreover have "chart_file 0 = ''chart_0.png''" by (simp add: chart_file_def str_nat.simps)
  ultimately show ?thesis
    using generate_demo export_inputs_facts current_export ok c f
    by (simp add: bar_session_facts)
qed

end
